theory Spec2Isabelle
  imports Main "HOL-Library.Word"
begin

section \<open>Python values and string helpers\<close>

text \<open>
  Strings are character lists. Bytes objects are lists of 8-bit words. Parsed JSON values are
  an ordinary tree; a float is kept as its literal text because the component never computes
  with one.
\<close>

type_synonym bytes = "8 word list"

datatype json =
    JNull
  | JBool bool
  | JInt int
  | JFloat string
  | JStr string
  | JList "json list"
  | JObj "(string \<times> json) list"

text \<open>
  The exceptions that can travel through the component. Each carries the text that Python's
  \<open>str(e)\<close> yields. \<open>ServerError\<close> is \<open>self.server.error\<close>: its class is declared outside
  this file; it is built from a message and a status code, and \<open>str\<close> of it is the message.
  \<open>TimeoutError\<close> is \<open>asyncio.TimeoutError\<close>, \<open>ClientError\<close> is \<open>aiohttp.ClientError\<close>;
  \<open>OtherException\<close> stands for every other subclass of \<open>Exception\<close> (\<open>OSError\<close>,
  \<open>TypeError\<close>, \<open>ValueError\<close>, ...).
\<close>

datatype exn =
    ServerError string int
  | TimeoutError string
  | ClientError string
  | OtherException string

fun str_exn :: "exn \<Rightarrow> string" where
  "str_exn (ServerError m s) = m"
| "str_exn (TimeoutError m) = m"
| "str_exn (ClientError m) = m"
| "str_exn (OtherException m) = m"

text \<open>\<open>str.startswith\<close>, \<open>str.endswith\<close> (with a tuple of suffixes) and the \<open>in\<close> test on strings.\<close>

fun startswith :: "string \<Rightarrow> string \<Rightarrow> bool" where
  "startswith s [] = True"
| "startswith [] (p # ps) = False"
| "startswith (c # cs) (p # ps) = (c = p \<and> startswith cs ps)"

definition endswith :: "string \<Rightarrow> string \<Rightarrow> bool" where
  "endswith s suf = startswith (rev s) (rev suf)"

definition endswith_any :: "string \<Rightarrow> string list \<Rightarrow> bool" where
  "endswith_any s sufs = list_ex (endswith s) sufs"

fun contains_str :: "string \<Rightarrow> string \<Rightarrow> bool" where
  "contains_str [] sub = (sub = [])"
| "contains_str (c # cs) sub = (startswith (c # cs) sub \<or> contains_str cs sub)"

text \<open>\<open>str.lower\<close> on the ASCII letters; every other character is left as it is.\<close>

definition lower_char :: "char \<Rightarrow> char" where
  "lower_char c =
     (let n = (of_char c :: nat) in if 65 \<le> n \<and> n \<le> 90 then char_of (n + 32) else c)"

definition lower :: "string \<Rightarrow> string" where
  "lower s = map lower_char s"

text \<open>Decimal rendering of an integer, as an f-string renders \<open>int(time.time())\<close>.\<close>

fun str_nat :: "nat \<Rightarrow> string" where
  "str_nat n =
     (if n < 10 then [char_of (48 + n)]
      else str_nat (n div 10) @ [char_of (48 + n mod 10)])"

declare str_nat.simps [simp del]

definition str_int :: "int \<Rightarrow> string" where
  "str_int i = (if i < 0 then CHR ''-'' # str_nat (nat (- i)) else str_nat (nat i))"

subsection \<open>Path functions of \<open>os.path\<close> (POSIX)\<close>

text \<open>\<open>str.rfind\<close> for a single character: the index of the last occurrence, or \<open>-1\<close>.\<close>

fun rfind_from :: "char \<Rightarrow> string \<Rightarrow> int \<Rightarrow> int \<Rightarrow> int" where
  "rfind_from c [] i acc = acc"
| "rfind_from c (x # xs) i acc = rfind_from c xs (i + 1) (if x = c then i else acc)"

definition rfind :: "string \<Rightarrow> char \<Rightarrow> int" where
  "rfind s c = rfind_from c s 0 (- 1)"

text \<open>\<open>os.path.basename(p)\<close>: \<open>i = p.rfind('/') + 1; return p[i:]\<close>.\<close>

definition basename :: "string \<Rightarrow> string" where
  "basename p = drop (nat (rfind p CHR ''/'' + 1)) p"

text \<open>
  \<open>os.path.join(a, b)\<close> with two arguments: an absolute \<open>b\<close> replaces \<open>a\<close>; otherwise a
  separator is inserted unless \<open>a\<close> is empty or already ends with one.
\<close>

definition os_path_join :: "string \<Rightarrow> string \<Rightarrow> string" where
  "os_path_join a b =
     (if startswith b ''/'' then b
      else if a = [] \<or> endswith a ''/'' then a @ b
      else a @ ''/'' @ b)"

text \<open>
  \<open>os.path.splitext(p)[1]\<close>. The loop of \<open>genericpath._splitext\<close> walks from the start of the
  last path component to the last dot and returns the split at the first character that is
  not a dot; a name made of leading dots only has no extension.
\<close>

function skip_leading_dots :: "string \<Rightarrow> nat \<Rightarrow> nat \<Rightarrow> bool" where
  "skip_leading_dots p filenameIndex dotIndex =
     (if filenameIndex < dotIndex
      then (if take 1 (drop filenameIndex p) \<noteq> ''.'' then True
            else skip_leading_dots p (filenameIndex + 1) dotIndex)
      else False)"
  by pat_completeness auto

termination skip_leading_dots
  by (relation "measure (\<lambda>(p, filenameIndex, dotIndex). dotIndex - filenameIndex)") auto

declare skip_leading_dots.simps [simp del]

definition splitext_ext :: "string \<Rightarrow> string" where
  "splitext_ext p =
     (let sepIndex = rfind p CHR ''/'';
          dotIndex = rfind p CHR ''.''
      in if dotIndex > sepIndex \<and> skip_leading_dots p (nat (sepIndex + 1)) (nat dotIndex)
         then drop (nat dotIndex) p
         else [])"

section \<open>Environment, requests and observable state\<close>

text \<open>
  \<open>AIConfig\<close> is the \<open>[ai]\<close> configuration section; the component reads three of its
  attributes.
\<close>

record AIConfig =
  base_url :: string
  upload_timeout :: int
  snapshot_path :: string

text \<open>The dictionary posted to the remote service and the call \<open>session.post(url, json=..., timeout=...)\<close>.\<close>

record predict_data =
  image_url :: string
  task_id :: json
  callback_url :: string

record post_request =
  url :: string
  json_arg :: predict_data
  timeout :: int

text \<open>
  What the component reads from a completed response: \<open>resp.status\<close>, \<open>await resp.text()\<close> and
  \<open>await resp.json()\<close>. Reading the body can itself raise (a payload error, a body that is not
  JSON), so both reads are results.
\<close>

record http_response =
  status :: int
  text_result :: "exn + string"
  json_result :: "exn + json"

datatype post_outcome = Raises exn | Responds http_response

text \<open>
  Log records: \<open>logging.info\<close>, \<open>logging.error\<close>, and \<open>logging.exception\<close> together with the
  exception being handled.
\<close>

datatype log_entry = LogInfo string | LogError string | LogException string exn

text \<open>
  The state the handlers change: the files on disk, the outbound POST requests issued so far,
  and the log.
\<close>

record world =
  disk :: "string \<rightharpoonup> bytes"
  posts :: "post_request list"
  logs :: "log_entry list"

text \<open>
  Everything a handler reads from outside itself:
  \<^item> \<open>address\<close>: \<open>self.server.get_host_info()['address']\<close>;
  \<^item> \<open>time_now\<close>: \<open>int(time.time())\<close>;
  \<^item> \<open>remote\<close>: how the remote service answers a POST;
  \<^item> \<open>open_wb\<close>: the exception raised by \<open>open(path, 'wb')\<close>, if any;
  \<^item> \<open>write_wb\<close>: once the file is open, the exception raised by \<open>f.write(data)\<close> or by
    closing the file, if any, together with the bytes that reached the file before it (the
    open has already created or truncated the file);
  \<^item> \<open>webcam\<close>: \<open>lookup_component("webcam")\<close> raises, or yields a webcam whose
    \<open>take_snapshot()\<close> raises or returns optional bytes;
  \<^item> \<open>py_str\<close>: Python's \<open>str()\<close> of a JSON value that is not a string, as an f-string
    renders it.
\<close>

record env =
  address :: string
  ai_config :: AIConfig
  time_now :: int
  remote :: "post_request \<Rightarrow> post_outcome"
  open_wb :: "string \<Rightarrow> exn option"
  write_wb :: "string \<Rightarrow> bytes \<Rightarrow> (exn \<times> bytes) option"
  webcam :: "exn + (exn + bytes option)"
  py_str :: "json \<Rightarrow> string"

text \<open>
  An uploaded file. Its class is declared outside this file: \<open>truthy\<close> is its truth value
  (\<open>bool(file)\<close>), \<open>filename\<close> may be \<open>None\<close>.
\<close>

record upload_file =
  truthy :: bool
  filename :: "string option"
  body :: bytes

record WebRequest =
  files :: "string \<rightharpoonup> upload_file"
  args :: "string \<rightharpoonup> string"
  get_json :: "string \<rightharpoonup> json"

record response =
  code :: int
  message :: string
  data :: json

text \<open>
  Modelled from the spec: \<open>WebRequest.get_str\<close> is defined outside this file. A \<open>task_id\<close>
  field must be present (400 class); a present argument is returned as it is.
\<close>

definition get_str :: "WebRequest \<Rightarrow> string \<Rightarrow> exn + string" where
  "get_str web_request key =
     (case args web_request key of
        None \<Rightarrow> Inl (ServerError (''No data for argument: '' @ key) 400)
      | Some v \<Rightarrow> Inr v)"

text \<open>A value inside an f-string: a string is inserted as it is.\<close>

definition fmt :: "env \<Rightarrow> json \<Rightarrow> string" where
  "fmt env v = (case v of JStr s \<Rightarrow> s | _ \<Rightarrow> py_str env v)"

fun type_name :: "json \<Rightarrow> string" where
  "type_name JNull = ''NoneType''"
| "type_name (JBool b) = ''bool''"
| "type_name (JInt i) = ''int''"
| "type_name (JFloat f) = ''float''"
| "type_name (JStr s) = ''str''"
| "type_name (JList xs) = ''list''"
| "type_name (JObj kvs) = ''dict''"

text \<open>\<open>d[key]\<close> on a dictionary: a missing key raises \<open>KeyError\<close>.\<close>

definition subscript :: "(string \<rightharpoonup> json) \<Rightarrow> string \<Rightarrow> exn + json" where
  "subscript d key =
     (case d key of
        None \<Rightarrow> Inl (OtherException ([CHR 0x27] @ key @ [CHR 0x27]))
      | Some v \<Rightarrow> Inr v)"

section \<open>The Predictor: \<open>_request_prediction\<close>\<close>

definition build_image_url :: "env \<Rightarrow> string \<Rightarrow> string" where
  "build_image_url env image_name =
     ''http://'' @ address env @ ''/server/files/ai_snapshots/'' @ image_name"

definition build_callback_url :: "env \<Rightarrow> string" where
  "build_callback_url env = ''http://'' @ address env @ ''/api/v1/ai/callback''"

definition build_request :: "env \<Rightarrow> string \<Rightarrow> json \<Rightarrow> post_request" where
  "build_request env image_path_str tid =
     \<lparr>url = base_url (ai_config env) @ ''/predict'',
      json_arg = \<lparr>image_url = build_image_url env (basename image_path_str),
                  task_id = tid,
                  callback_url = build_callback_url env\<rparr>,
      timeout = upload_timeout (ai_config env)\<rparr>"

text \<open>
  The body of the \<open>try\<close> block. \<open>os.path.basename\<close> raises \<open>TypeError\<close> on a value that is
  not a string. The POST is recorded as issued before its outcome is known.
\<close>

definition request_prediction_try ::
  "env \<Rightarrow> json \<Rightarrow> json \<Rightarrow> world \<Rightarrow> (exn + json) \<times> world" where
  "request_prediction_try env image_path tid w =
     (case image_path of
        JStr p \<Rightarrow>
          (let req = build_request env p tid;
               w1 = w\<lparr>posts := posts w @ [req]\<rparr>
           in case remote env req of
                Raises e \<Rightarrow> (Inl e, w1)
              | Responds resp \<Rightarrow>
                  if status resp \<noteq> 200 then
                    (case text_result resp of
                       Inl e \<Rightarrow> (Inl e, w1)
                     | Inr error_text \<Rightarrow>
                         (Inl (ServerError (''AI service returned error: '' @ error_text)
                                 (status resp)), w1))
                  else
                    (case json_result resp of
                       Inl e \<Rightarrow> (Inl e, w1)
                     | Inr result \<Rightarrow>
                         (Inr result,
                          w1\<lparr>logs := logs w1 @
                            [LogInfo (''AI Detection: Prediction requested for task '' @
                                      fmt env tid @ '', response: '' @ fmt env result)]\<rparr>)))
      | _ \<Rightarrow>
          (Inl (OtherException
                  (''expected str, bytes or os.PathLike object, not '' @ type_name image_path)),
           w))"

text \<open>The two \<open>except\<close> clauses; any other exception propagates unchanged.\<close>

fun request_prediction_except :: "env \<Rightarrow> json \<Rightarrow> exn \<Rightarrow> world \<Rightarrow> exn \<times> world" where
  "request_prediction_except env tid (TimeoutError m) w =
     (ServerError ''AI service request timeout'' 504,
      w\<lparr>logs := logs w @
        [LogError (''AI Detection: Prediction request timeout for task '' @ fmt env tid)]\<rparr>)"
| "request_prediction_except env tid (ClientError m) w =
     (ServerError (''Failed to connect to AI service: '' @ m) 503,
      w\<lparr>logs := logs w @
        [LogError (''AI Detection: Failed to connect to AI service for task '' @
                   fmt env tid @ '': '' @ m)]\<rparr>)"
| "request_prediction_except env tid (ServerError m s) w = (ServerError m s, w)"
| "request_prediction_except env tid (OtherException m) w = (OtherException m, w)"

definition request_prediction ::
  "env \<Rightarrow> json \<Rightarrow> json \<Rightarrow> world \<Rightarrow> (exn + json) \<times> world" where
  "request_prediction env image_path tid w =
     (case request_prediction_try env image_path tid w of
        (Inl e, w') \<Rightarrow>
          (case request_prediction_except env tid e w' of (e', w'') \<Rightarrow> (Inl e', w''))
      | (Inr result, w') \<Rightarrow> (Inr result, w'))"

section \<open>The Predict Handler: \<open>_handle_predict\<close>\<close>

definition required_fields :: "string list" where
  "required_fields = [''image_url'', ''task_id'', ''callback_url'']"

text \<open>The \<open>for field in required_fields\<close> loop: the first missing key raises.\<close>

fun check_required :: "string list \<Rightarrow> (string \<rightharpoonup> json) \<Rightarrow> exn option" where
  "check_required [] request_json = None"
| "check_required (field # rest) request_json =
     (if request_json field = None
      then Some (ServerError (''Missing required field: '' @ field) 400)
      else check_required rest request_json)"

text \<open>
  The \<open>try\<close> block: the two subscripts are evaluated first, then the Predictor is awaited.
\<close>

definition handle_predict_try ::
  "env \<Rightarrow> (string \<rightharpoonup> json) \<Rightarrow> world \<Rightarrow> (exn + response) \<times> world" where
  "handle_predict_try env request_json w =
     (case subscript request_json ''image_url'' of
        Inl e \<Rightarrow> (Inl e, w)
      | Inr image_path \<Rightarrow>
          (case subscript request_json ''task_id'' of
             Inl e \<Rightarrow> (Inl e, w)
           | Inr tid \<Rightarrow>
               (case request_prediction env image_path tid w of
                  (Inl e, w') \<Rightarrow> (Inl e, w')
                | (Inr result, w') \<Rightarrow>
                    (Inr \<lparr>code = 200, message = ''success'', data = result\<rparr>, w'))))"

definition handle_predict :: "env \<Rightarrow> WebRequest \<Rightarrow> world \<Rightarrow> (exn + response) \<times> world" where
  "handle_predict env web_request w =
     (let request_json = get_json web_request
      in case check_required required_fields request_json of
           Some e \<Rightarrow> (Inl e, w)
         | None \<Rightarrow>
             (case handle_predict_try env request_json w of
                (Inl e, w') \<Rightarrow>
                  (Inl (ServerError (str_exn e) 500),
                   w'\<lparr>logs := logs w' @
                     [LogException ''Error processing prediction request'' e]\<rparr>)
              | (Inr r, w') \<Rightarrow> (Inr r, w')))"

section \<open>The Snapshot Handler: \<open>_handle_snapshot_request\<close>\<close>

definition snapshot_task_id :: "env \<Rightarrow> string" where
  "snapshot_task_id env = ''snapshot_'' @ str_int (time_now env)"

definition snapshot_save_path :: "env \<Rightarrow> string" where
  "snapshot_save_path env =
     os_path_join (snapshot_path (ai_config env)) (snapshot_task_id env @ ''.jpg'')"

text \<open>
  The body of the \<open>try\<close> block. Of the file operations only the failure of \<open>open\<close> is
  modelled here; a failing write is caught by the same \<open>except\<close> clause.
\<close>

definition handle_snapshot_try :: "env \<Rightarrow> world \<Rightarrow> (exn + unit) \<times> world" where
  "handle_snapshot_try env w =
     (case webcam env of
        Inl e \<Rightarrow> (Inl e, w)
      | Inr take_snapshot \<Rightarrow>
          (case take_snapshot of
             Inl e \<Rightarrow> (Inl e, w)
           | Inr None \<Rightarrow> (Inr (), w\<lparr>logs := logs w @ [LogError ''Failed to take snapshot'']\<rparr>)
           | Inr (Some snapshot) \<Rightarrow>
               (let save_path = snapshot_save_path env
                in case open_wb env save_path of
                     Some e \<Rightarrow> (Inl e, w)
                   | None \<Rightarrow>
                       (let w1 = w\<lparr>disk := (disk w)(save_path \<mapsto> snapshot),
                                    logs := logs w @
                                      [LogInfo (''AI Detection: Snapshot saved for task '' @
                                                snapshot_task_id env @ '' at '' @ save_path)]\<rparr>
                        in case request_prediction env (JStr save_path)
                                  (JStr (snapshot_task_id env)) w1 of
                             (Inl e, w2) \<Rightarrow> (Inl e, w2)
                           | (Inr result, w2) \<Rightarrow> (Inr (), w2)))))"

definition handle_snapshot_request :: "env \<Rightarrow> world \<Rightarrow> (exn + unit) \<times> world" where
  "handle_snapshot_request env w =
     (case handle_snapshot_try env w of
        (Inl e, w') \<Rightarrow>
          (Inl (ServerError (''Failed to process snapshot: '' @ str_exn e) 500),
           w'\<lparr>logs := logs w' @ [LogException ''Error processing snapshot request'' e]\<rparr>)
      | (Inr u, w') \<Rightarrow> (Inr u, w'))"

definition handle_gcode_response :: "env \<Rightarrow> string \<Rightarrow> world \<Rightarrow> (exn + unit) \<times> world" where
  "handle_gcode_response env gcode_response w =
     (if startswith gcode_response ''action:ai_snapshot''
      then handle_snapshot_request env w
      else (Inr (), w))"

section \<open>The Upload Handler: \<open>_handle_image_upload\<close>\<close>

definition allowed_suffixes :: "string list" where
  "allowed_suffixes = [''.jpg'', ''.jpeg'', ''.png'']"

definition upload_save_filename :: "env \<Rightarrow> string \<Rightarrow> string \<Rightarrow> string" where
  "upload_save_filename env tid lowered =
     tid @ ''_'' @ str_int (time_now env) @ splitext_ext lowered"

text \<open>
  The test \<open>not file or not file.filename\<close> fails the request when the file object is falsy,
  or its filename is \<open>None\<close> or empty; past it the filename is a non-empty string. The body of
  the file is not examined. Opening the file, writing the body and closing the file all happen
  inside the \<open>try\<close> block, so a failure of any of them is answered with a 500-class error.
\<close>

definition handle_image_upload ::
  "env \<Rightarrow> WebRequest \<Rightarrow> world \<Rightarrow> (exn + response) \<times> world" where
  "handle_image_upload env web_request w =
     (case files web_request ''file'' of
        None \<Rightarrow> (Inl (ServerError ''No file uploaded'' 400), w)
      | Some file \<Rightarrow>
          (case (if truthy file then filename file else None) of
             None \<Rightarrow> (Inl (ServerError ''Empty file'' 400), w)
           | Some name \<Rightarrow>
               if name = [] then (Inl (ServerError ''Empty file'' 400), w)
               else
                 (case get_str web_request ''task_id'' of
                    Inl e \<Rightarrow> (Inl e, w)
                  | Inr tid \<Rightarrow>
                      if tid = [] then (Inl (ServerError ''task_id is required'' 400), w)
                      else
                        (let lowered = lower name
                         in if \<not> endswith_any lowered allowed_suffixes
                            then (Inl (ServerError
                                         ''Invalid file type. Only jpg/jpeg/png allowed'' 400), w)
                            else
                              (let save_path =
                                     os_path_join (snapshot_path (ai_config env))
                                       (upload_save_filename env tid lowered)
                               in case open_wb env save_path of
                                    Some e \<Rightarrow>
                                      (Inl (ServerError
                                              (''Failed to save image: '' @ str_exn e) 500),
                                       w\<lparr>logs := logs w @
                                         [LogException ''Failed to save uploaded image'' e]\<rparr>)
                                  | None \<Rightarrow>
                                      (case write_wb env save_path (body file) of
                                         Some (e, written) \<Rightarrow>
                                           (Inl (ServerError
                                                   (''Failed to save image: '' @ str_exn e) 500),
                                            w\<lparr>disk := (disk w)(save_path \<mapsto> written),
                                              logs := logs w @
                                                [LogException ''Failed to save uploaded image''
                                                   e]\<rparr>)
                                       | None \<Rightarrow>
                                           (Inr \<lparr>code = 200, message = ''success'',
                                                 data = JNull\<rparr>,
                                            w\<lparr>disk := (disk w)(save_path \<mapsto> body file),
                                              logs := logs w @
                                                [LogInfo
                                                   (''AI Detection: Image saved for task '' @
                                                    tid @ '' at '' @ save_path)]\<rparr>)))))))"

section \<open>Sample inputs\<close>

text \<open>Concrete configurations, environments and requests on which the theorems are exercised.\<close>

definition sample_config :: AIConfig where
  "sample_config =
     \<lparr>base_url = ''http://ai.local'', upload_timeout = 30, snapshot_path = ''/snap''\<rparr>"

text \<open>
  An environment in which the remote service always answers with the given outcome, every
  file can be opened and the webcam has no image.
\<close>

definition sample_env :: "post_outcome \<Rightarrow> env" where
  "sample_env outcome =
     \<lparr>address = ''10.0.0.2'', ai_config = sample_config, time_now = 5,
      remote = (\<lambda>_. outcome), open_wb = (\<lambda>_. None), write_wb = (\<lambda>_ _. None),
      webcam = Inr (Inr None),
      py_str = (\<lambda>_. ''?'')\<rparr>"

definition empty_world :: world where
  "empty_world = \<lparr>disk = Map.empty, posts = [], logs = []\<rparr>"

definition ok_response :: http_response where
  "ok_response =
     \<lparr>status = 200, text_result = Inr ''label ok'',
      json_result = Inr (JObj [(''label'', JStr ''ok'')])\<rparr>"

definition created_response :: http_response where
  "created_response =
     \<lparr>status = 201, text_result = Inr ''created'',
      json_result = Inr (JObj [(''label'', JStr ''ok'')])\<rparr>"

definition bad_image_response :: http_response where
  "bad_image_response =
     \<lparr>status = 422, text_result = Inr ''bad image'',
      json_result = Inl (ClientError ''unexpected mimetype'')\<rparr>"

definition timeout_env :: env where
  "timeout_env = sample_env (Raises (TimeoutError []))"

definition refused_env :: env where
  "refused_env = sample_env (Raises (ClientError ''refused''))"

definition only_task_id :: WebRequest where
  "only_task_id =
     \<lparr>files = Map.empty, args = Map.empty, get_json = [''task_id'' \<mapsto> JStr ''t1'']\<rparr>"

definition full_request :: "string \<Rightarrow> WebRequest" where
  "full_request cb =
     \<lparr>files = Map.empty, args = Map.empty,
      get_json = [''image_url'' \<mapsto> JStr ''/snap/a.jpg'', ''task_id'' \<mapsto> JStr ''t1'',
                  ''callback_url'' \<mapsto> JStr cb]\<rparr>"

definition camera_env :: "post_outcome \<Rightarrow> env" where
  "camera_env outcome = (sample_env outcome)\<lparr>webcam := Inr (Inr (Some [0xFF, 0xD8]))\<rparr>"


definition upload_request :: "string \<Rightarrow> string \<Rightarrow> WebRequest" where
  "upload_request name tid =
     \<lparr>files = [''file'' \<mapsto> \<lparr>truthy = True, filename = Some name, body = [1, 2]\<rparr>],
      args = [''task_id'' \<mapsto> tid], get_json = Map.empty\<rparr>"

definition zero_byte_upload :: WebRequest where
  "zero_byte_upload =
     \<lparr>files = [''file'' \<mapsto> \<lparr>truthy = True, filename = Some ''a.jpg'', body = []\<rparr>],
      args = [''task_id'' \<mapsto> ''t1''], get_json = Map.empty\<rparr>"

definition no_task_id_upload :: WebRequest where
  "no_task_id_upload =
     \<lparr>files = [''file'' \<mapsto> \<lparr>truthy = True, filename = Some ''a.jpg'', body = [1, 2]\<rparr>],
      args = Map.empty, get_json = Map.empty\<rparr>"

definition falsy_file_upload :: WebRequest where
  "falsy_file_upload =
     \<lparr>files = [''file'' \<mapsto> \<lparr>truthy = False, filename = Some ''a.jpg'', body = [1, 2]\<rparr>],
      args = [''task_id'' \<mapsto> ''t1''], get_json = Map.empty\<rparr>"

definition disk_full :: "string \<Rightarrow> bytes \<Rightarrow> (exn \<times> bytes) option" where
  "disk_full path payload = Some (OtherException ''No space left on device'', take 1 payload)"

definition no_file_request :: WebRequest where
  "no_file_request =
     \<lparr>files = Map.empty, args = [''task_id'' \<mapsto> ''t1''], get_json = Map.empty\<rparr>"

definition empty_values_request :: WebRequest where
  "empty_values_request =
     \<lparr>files = Map.empty, args = Map.empty,
      get_json = [''image_url'' \<mapsto> JStr [], ''task_id'' \<mapsto> JStr [],
                  ''callback_url'' \<mapsto> JStr []]\<rparr>"

section \<open>Auxiliary facts\<close>

subsection \<open>Substrings\<close>

lemma startswith_append: "startswith (p @ s) p"
  by (induction p) simp_all

lemma startswith_contains: "startswith s sub \<Longrightarrow> contains_str s sub"
  by (cases s; cases sub) simp_all

lemma contains_str_append_left: "contains_str s sub \<Longrightarrow> contains_str (a @ s) sub"
  by (induction a) simp_all

lemma contains_str_prefixed: "contains_str (a @ b) b"
  using startswith_append [of b "[]"]
  by (simp add: contains_str_append_left startswith_contains)

subsection \<open>The Predictor, outcome by outcome\<close>

lemma request_prediction_raises:
  "remote env (build_request env p tid) = Raises e \<Longrightarrow>
   request_prediction env (JStr p) tid w =
     (case request_prediction_except env tid e
             (w\<lparr>posts := posts w @ [build_request env p tid]\<rparr>) of
        (e', w') \<Rightarrow> (Inl e', w'))"
  by (simp add: request_prediction_def request_prediction_try_def Let_def)

lemma request_prediction_not_200:
  "remote env (build_request env p tid) = Responds resp \<Longrightarrow> status resp \<noteq> 200 \<Longrightarrow>
   text_result resp = Inr error_text \<Longrightarrow>
   request_prediction env (JStr p) tid w =
     (Inl (ServerError (''AI service returned error: '' @ error_text) (status resp)),
      w\<lparr>posts := posts w @ [build_request env p tid]\<rparr>)"
  by (simp add: request_prediction_def request_prediction_try_def Let_def)

lemma request_prediction_200:
  "remote env (build_request env p tid) = Responds resp \<Longrightarrow> status resp = 200 \<Longrightarrow>
   json_result resp = Inr result \<Longrightarrow>
   request_prediction env (JStr p) tid w =
     (Inr result,
      w\<lparr>posts := posts w @ [build_request env p tid],
        logs := logs w @
          [LogInfo (''AI Detection: Prediction requested for task '' @ fmt env tid @
                    '', response: '' @ fmt env result)]\<rparr>)"
  by (simp add: request_prediction_def request_prediction_try_def Let_def)

text \<open>The Predictor issues exactly one POST when the image path is a string, and none otherwise.\<close>

lemma request_prediction_except_posts:
  "posts (snd (request_prediction_except env t e w)) = posts w"
  by (cases e) simp_all

lemma request_prediction_try_posts:
  "posts (snd (request_prediction_try env u t w)) =
     (case u of JStr p \<Rightarrow> posts w @ [build_request env p t] | _ \<Rightarrow> posts w)"
  by (cases u)
     (simp_all add: request_prediction_try_def Let_def split: post_outcome.splits sum.splits)

lemma request_prediction_posts:
  "posts (snd (request_prediction env u t w)) =
     (case u of JStr p \<Rightarrow> posts w @ [build_request env p t] | _ \<Rightarrow> posts w)"
proof (cases "request_prediction_try env u t w")
  case (Pair res w')
  then have w': "posts w' =
      (case u of JStr p \<Rightarrow> posts w @ [build_request env p t] | _ \<Rightarrow> posts w)"
    using request_prediction_try_posts [of env u t w] by simp
  show ?thesis
  proof (cases res)
    case (Inl e)
    then show ?thesis
      using Pair w' request_prediction_except_posts [of env t e w']
      by (auto simp add: request_prediction_def split: prod.splits)
  next
    case (Inr result)
    then show ?thesis using Pair w' by (simp add: request_prediction_def)
  qed
qed

lemma timeout_env_prediction:
  "request_prediction timeout_env (JStr ''/snap/a.jpg'') (JStr ''t1'') empty_world =
     (Inl (ServerError ''AI service request timeout'' 504),
      empty_world\<lparr>posts := [build_request timeout_env ''/snap/a.jpg'' (JStr ''t1'')],
        logs := [LogError ''AI Detection: Prediction request timeout for task t1'']\<rparr>)"
  by (simp add: request_prediction_raises timeout_env_def sample_env_def empty_world_def fmt_def)

subsection \<open>The Predict Handler once validation has passed\<close>

lemma check_required_all_present:
  "get_json r ''image_url'' = Some u \<Longrightarrow> get_json r ''task_id'' = Some t \<Longrightarrow>
   get_json r ''callback_url'' = Some c \<Longrightarrow>
   check_required required_fields (get_json r) = None"
  by (simp add: required_fields_def)

lemma handle_predict_valid:
  "get_json r ''image_url'' = Some u \<Longrightarrow> get_json r ''task_id'' = Some t \<Longrightarrow>
   get_json r ''callback_url'' = Some c \<Longrightarrow>
   handle_predict env r w =
     (case request_prediction env u t w of
        (Inl e, w') \<Rightarrow>
          (Inl (ServerError (str_exn e) 500),
           w'\<lparr>logs := logs w' @ [LogException ''Error processing prediction request'' e]\<rparr>)
      | (Inr result, w') \<Rightarrow> (Inr \<lparr>code = 200, message = ''success'', data = result\<rparr>, w'))"
  by (simp add: handle_predict_def handle_predict_try_def subscript_def Let_def
      check_required_all_present split: prod.splits sum.splits)

lemma handle_predict_posts:
  assumes "get_json r ''image_url'' = Some u" "get_json r ''task_id'' = Some t"
    "get_json r ''callback_url'' = Some c"
  shows "posts (snd (handle_predict env r w)) =
     (case u of JStr p \<Rightarrow> posts w @ [build_request env p t] | _ \<Rightarrow> posts w)"
proof (cases "request_prediction env u t w")
  case (Pair res w')
  then have "posts w' =
      (case u of JStr p \<Rightarrow> posts w @ [build_request env p t] | _ \<Rightarrow> posts w)"
    using request_prediction_posts [of env u t w] by simp
  then show ?thesis
    using Pair by (cases res) (simp_all add: handle_predict_valid [OF assms])
qed

subsection \<open>Suffixes, \<open>rfind\<close> and extensions\<close>

lemma startswith_iff: "startswith s p \<longleftrightarrow> (\<exists>t. s = p @ t)"
  by (induction s p rule: startswith.induct) auto

lemma endswith_iff: "endswith s suf \<longleftrightarrow> (\<exists>pre. s = pre @ suf)"
proof
  assume "endswith s suf"
  then obtain t where "rev s = rev suf @ t"
    by (auto simp add: endswith_def startswith_iff)
  then have "s = rev t @ suf"
    by (metis rev_append rev_rev_ident)
  then show "\<exists>pre. s = pre @ suf" by blast
next
  assume "\<exists>pre. s = pre @ suf"
  then show "endswith s suf"
    by (auto simp add: endswith_def startswith_iff)
qed

lemma rfind_from_absent: "c \<notin> set xs \<Longrightarrow> rfind_from c xs i acc = acc"
  by (induction xs arbitrary: i acc) auto

lemma rfind_from_append:
  "rfind_from c (xs @ ys) i acc = rfind_from c ys (i + int (length xs)) (rfind_from c xs i acc)"
  by (induction xs arbitrary: i acc) (simp_all add: algebra_simps)

lemma rfind_last: "c \<notin> set suf \<Longrightarrow> rfind (pre @ c # suf) c = int (length pre)"
  by (simp add: rfind_def rfind_from_append rfind_from_absent)

lemma rfind_absent: "c \<notin> set s \<Longrightarrow> rfind s c = - 1"
  by (simp add: rfind_def rfind_from_absent)

lemma splitext_ext_no_sep: "CHR ''/'' \<notin> set (splitext_ext p)"
proof (cases "CHR ''/'' \<in> set p")
  case False
  then show ?thesis
    by (auto simp add: splitext_ext_def Let_def dest: in_set_dropD)
next
  case True
  then obtain pre suf where p: "p = pre @ CHR ''/'' # suf" and suf: "CHR ''/'' \<notin> set suf"
    by (meson split_list_last)
  have sep: "rfind p CHR ''/'' = int (length pre)"
    using suf by (simp add: p rfind_last)
  show ?thesis
  proof (cases "rfind p CHR ''.'' > rfind p CHR ''/''")
    case False
    then show ?thesis by (simp add: splitext_ext_def Let_def)
  next
    case True
    define k where "k = nat (rfind p CHR ''.'') - Suc (length pre)"
    have k: "nat (rfind p CHR ''.'') = length pre + Suc k"
      using True sep unfolding k_def by linarith
    have "drop (length pre + Suc k) (pre @ CHR ''/'' # suf) = drop k suf"
      by simp
    then have "drop (nat (rfind p CHR ''.'')) p = drop k suf"
      using k p by metis
    then have "set (drop (nat (rfind p CHR ''.'')) p) \<subseteq> set suf"
      by (simp add: set_drop_subset)
    then show ?thesis
      using suf by (auto simp add: splitext_ext_def Let_def)
  qed
qed

lemma digit_not_sep: "n < 10 \<Longrightarrow> char_of (48 + n) \<noteq> CHR ''/''" for n :: nat
  by (simp add: char_of_eq_iff take_bit_nat_eq_self)

lemma str_nat_no_sep: "CHR ''/'' \<notin> set (str_nat n)"
proof (induction n rule: str_nat.induct)
  case (1 n)
  show ?case
  proof (cases "n < 10")
    case True
    then show ?thesis
      using digit_not_sep [of n] by (simp add: str_nat.simps [of n])
  next
    case False
    then show ?thesis
      using 1 digit_not_sep [of "n mod 10"] by (simp add: str_nat.simps [of n])
  qed
qed

lemma str_int_no_sep: "CHR ''/'' \<notin> set (str_int i)"
  by (simp add: str_int_def str_nat_no_sep)

lemma skip_leading_dots_iff:
  "d \<le> length p \<Longrightarrow>
   skip_leading_dots p i d \<longleftrightarrow> (\<exists>c \<in> set (take (d - i) (drop i p)). c \<noteq> CHR ''.'')"
proof (induction p i d rule: skip_leading_dots.induct)
  case (1 p i d)
  show ?case
  proof (cases "i < d")
    case False
    then show ?thesis by (simp add: skip_leading_dots.simps [of p i d])
  next
    case True
    then have il: "i < length p" using "1.prems" by simp
    then have one: "take 1 (drop i p) = [p ! i]"
      by (simp add: take_Suc_conv_app_nth)
    have split: "take (d - i) (drop i p) = p ! i # take (d - Suc i) (drop (Suc i) p)"
      using True il by (metis Cons_nth_drop_Suc Suc_diff_Suc take_Suc_Cons)
    show ?thesis
    proof (cases "p ! i = CHR ''.''")
      case False
      then show ?thesis
        using True one by (simp add: skip_leading_dots.simps [of p i d] split)
    next
      case dot: True
      then have "skip_leading_dots p i d = skip_leading_dots p (i + 1) d"
        using True one by (simp add: skip_leading_dots.simps [of p i d])
      also have "\<dots> \<longleftrightarrow> (\<exists>c \<in> set (take (d - (i + 1)) (drop (i + 1) p)). c \<noteq> CHR ''.'')"
        using "1.IH" [OF True _ "1.prems"] one dot by simp
      finally show ?thesis
        using dot by (simp add: split)
    qed
  qed
qed

lemma rfind_append_absent: "c \<notin> set suf \<Longrightarrow> rfind (pre @ suf) c = rfind pre c"
  by (simp add: rfind_def rfind_from_append rfind_from_absent)

lemma rfind_from_upper:
  "acc < i + int (length xs) \<Longrightarrow> rfind_from c xs i acc < i + int (length xs)"
proof (induction xs arbitrary: i acc)
  case Nil
  then show ?case by simp
next
  case (Cons a xs)
  have "(if a = c then i else acc) < (i + 1) + int (length xs)"
    using Cons.prems by simp
  then have "rfind_from c xs (i + 1) (if a = c then i else acc) < (i + 1) + int (length xs)"
    by (rule Cons.IH)
  then show ?case by simp
qed

lemma rfind_upper: "rfind s c < int (length s)"
  using rfind_from_upper [of "- 1" 0 s c] by (simp add: rfind_def)

text \<open>
  The extension of a name that ends in a dot-suffix without further dots or separators: the
  suffix, unless the last path component has only dots in front of it.
\<close>

lemma splitext_ext_suffix:
  assumes "CHR ''.'' \<notin> set rest" "CHR ''/'' \<notin> set rest"
  shows "splitext_ext (pre @ CHR ''.'' # rest) =
           (if \<exists>c \<in> set (basename pre). c \<noteq> CHR ''.'' then CHR ''.'' # rest else [])"
proof -
  let ?p = "pre @ CHR ''.'' # rest"
  have dot: "rfind ?p CHR ''.'' = int (length pre)"
    using assms(1) by (rule rfind_last)
  have sep: "rfind ?p CHR ''/'' = rfind pre CHR ''/''"
    using assms(2) rfind_append_absent [of "CHR ''/''" "CHR ''.'' # rest" pre] by simp
  have lt: "rfind pre CHR ''/'' < int (length pre)"
    by (rule rfind_upper)
  have "skip_leading_dots ?p (nat (rfind pre CHR ''/'' + 1)) (length pre) \<longleftrightarrow>
        (\<exists>c \<in> set (take (length pre - nat (rfind pre CHR ''/'' + 1))
                       (drop (nat (rfind pre CHR ''/'' + 1)) ?p)). c \<noteq> CHR ''.'')"
    by (rule skip_leading_dots_iff) simp
  also have "take (length pre - nat (rfind pre CHR ''/'' + 1))
               (drop (nat (rfind pre CHR ''/'' + 1)) ?p) = basename pre"
    by (simp add: basename_def)
  finally have skip: "skip_leading_dots ?p (nat (rfind pre CHR ''/'' + 1)) (length pre) \<longleftrightarrow>
        (\<exists>c \<in> set (basename pre). c \<noteq> CHR ''.'')" .
  show ?thesis
    using lt skip by (simp add: splitext_ext_def Let_def dot sep)
qed

lemma allowed_suffix_split:
  assumes "endswith_any l allowed_suffixes"
  shows "\<exists>pre rest. l = pre @ CHR ''.'' # rest \<and> CHR ''.'' # rest \<in> set allowed_suffixes \<and>
           CHR ''.'' \<notin> set rest \<and> CHR ''/'' \<notin> set rest"
proof -
  from assms consider pre where "l = pre @ ''.jpg''" | pre where "l = pre @ ''.jpeg''"
    | pre where "l = pre @ ''.png''"
    by (auto simp add: endswith_any_def allowed_suffixes_def endswith_iff)
  then show ?thesis
  proof cases
    case 1
    then show ?thesis by (intro exI [of _ pre] exI [of _ "''jpg''"]) (simp add: allowed_suffixes_def)
  next
    case 2
    then show ?thesis by (intro exI [of _ pre] exI [of _ "''jpeg''"]) (simp add: allowed_suffixes_def)
  next
    case 3
    then show ?thesis by (intro exI [of _ pre] exI [of _ "''png''"]) (simp add: allowed_suffixes_def)
  qed
qed

lemma splitext_ext_of_allowed:
  assumes "endswith_any l allowed_suffixes"
  shows "\<exists>pre suf. l = pre @ suf \<and> suf \<in> set allowed_suffixes \<and>
           splitext_ext l = (if \<exists>c \<in> set (basename pre). c \<noteq> CHR ''.'' then suf else [])"
proof -
  obtain pre rest where l: "l = pre @ CHR ''.'' # rest"
    and a: "CHR ''.'' # rest \<in> set allowed_suffixes"
    and r: "CHR ''.'' \<notin> set rest" "CHR ''/'' \<notin> set rest"
    using allowed_suffix_split [OF assms] by blast
  show ?thesis
    using l a splitext_ext_suffix [OF r, of pre] by blast
qed

subsection \<open>The Snapshot Handler once an image has been captured\<close>

lemma str_int_5: "str_int 5 = ''5''"
  by code_simp

lemma camera_env_save_path:
  "snapshot_save_path (camera_env outcome) = ''/snap/snapshot_5.jpg''"
  "snapshot_task_id (camera_env outcome) = ''snapshot_5''"
  by (simp_all add: snapshot_save_path_def snapshot_task_id_def camera_env_def sample_env_def
      sample_config_def os_path_join_def endswith_def str_int_5)


subsection \<open>The Upload Handler on its success path\<close>

lemma gif_not_allowed: "\<not> endswith_any (lower ''Photo.GIF'') allowed_suffixes"
  by code_simp

lemma basename_empty: "basename [] = []"
  by (simp add: basename_def)

lemma handle_image_upload_valid:
  assumes "files r ''file'' = Some f" "truthy f" "filename f = Some name" "name \<noteq> []"
    "args r ''task_id'' = Some tid" "tid \<noteq> []"
    "endswith_any (lower name) allowed_suffixes"
    "open_wb env (os_path_join (snapshot_path (ai_config env))
                    (upload_save_filename env tid (lower name))) = None"
    "write_wb env (os_path_join (snapshot_path (ai_config env))
                     (upload_save_filename env tid (lower name))) (body f) = None"
  shows "handle_image_upload env r w =
     (Inr \<lparr>code = 200, message = ''success'', data = JNull\<rparr>,
      w\<lparr>disk := (disk w)(os_path_join (snapshot_path (ai_config env))
                            (upload_save_filename env tid (lower name)) \<mapsto> body f),
        logs := logs w @
          [LogInfo (''AI Detection: Image saved for task '' @ tid @ '' at '' @
                    os_path_join (snapshot_path (ai_config env))
                      (upload_save_filename env tid (lower name)))]\<rparr>)"
  using assms by (simp add: handle_image_upload_def get_str_def Let_def)

lemma os_path_join_relative:
  assumes "b \<noteq> []" "hd b \<noteq> CHR ''/''"
  shows "os_path_join a b = a @ b \<or> os_path_join a b = a @ ''/'' @ b"
  using assms by (cases b) (simp_all add: os_path_join_def)

lemma upload_save_filename_no_sep:
  "CHR ''/'' \<notin> set tid \<Longrightarrow> CHR ''/'' \<notin> set (upload_save_filename env tid l)"
  by (simp add: upload_save_filename_def str_int_no_sep splitext_ext_no_sep)

lemma upper_jpg_facts:
  "endswith_any (lower ''A.JPG'') allowed_suffixes"
  "splitext_ext (lower ''A.JPG'') = ''.jpg''"
  "splitext_ext ''A.JPG'' = ''.JPG''"
  by code_simp+

lemma upper_jpg_path:
  "os_path_join ''/snap'' (''t1'' @ ''_'' @ str_int 5 @ ''.jpg'') = ''/snap/t1_5.jpg''"
  by code_simp

lemma absolute_task_id_path:
  "os_path_join ''/snap'' (''/tmp/x'' @ ''_'' @ str_int 5 @ ''.jpg'') = ''/tmp/x_5.jpg''"
  by code_simp

lemma handle_image_upload_absolute_task_id:
  "disk (snd (handle_image_upload (sample_env (Responds ok_response))
                (upload_request ''A.JPG'' ''/tmp/x'') empty_world)) =
     [''/tmp/x_5.jpg'' \<mapsto> [1, 2]]"
proof -
  have "handle_image_upload (sample_env (Responds ok_response))
          (upload_request ''A.JPG'' ''/tmp/x'') empty_world =
     (Inr \<lparr>code = 200, message = ''success'', data = JNull\<rparr>,
      empty_world\<lparr>disk := [''/tmp/x_5.jpg'' \<mapsto> [1, 2]],
        logs := [LogInfo ''AI Detection: Image saved for task /tmp/x at /tmp/x_5.jpg'']\<rparr>)"
    using handle_image_upload_valid
          [where r = "upload_request ''A.JPG'' ''/tmp/x''" and name = "''A.JPG''"
             and tid = "''/tmp/x''"
             and f = "\<lparr>truthy = True, filename = Some ''A.JPG'', body = [1, 2]\<rparr>"
             and env = "sample_env (Responds ok_response)" and w = empty_world]
        upper_jpg_facts absolute_task_id_path
    by (simp add: upload_request_def sample_env_def sample_config_def empty_world_def str_int_5
        upload_save_filename_def)
  then show ?thesis by (simp add: empty_world_def)
qed

lemma handle_image_upload_write_fails:
  assumes "files r ''file'' = Some f" "truthy f" "filename f = Some name" "name \<noteq> []"
    "args r ''task_id'' = Some tid" "tid \<noteq> []"
    "endswith_any (lower name) allowed_suffixes"
    "open_wb env (os_path_join (snapshot_path (ai_config env))
                    (upload_save_filename env tid (lower name))) = None"
    "write_wb env (os_path_join (snapshot_path (ai_config env))
                     (upload_save_filename env tid (lower name))) (body f) = Some (e, written)"
  shows "handle_image_upload env r w =
     (Inl (ServerError (''Failed to save image: '' @ str_exn e) 500),
      w\<lparr>disk := (disk w)(os_path_join (snapshot_path (ai_config env))
                            (upload_save_filename env tid (lower name)) \<mapsto> written),
        logs := logs w @ [LogException ''Failed to save uploaded image'' e]\<rparr>)"
  using assms by (simp add: handle_image_upload_def get_str_def Let_def)

lemma handle_image_upload_disk_full:
  "handle_image_upload ((sample_env (Responds ok_response))\<lparr>write_wb := disk_full\<rparr>)
     (upload_request ''A.JPG'' ''t1'') empty_world =
     (Inl (ServerError ''Failed to save image: No space left on device'' 500),
      empty_world\<lparr>disk := [''/snap/t1_5.jpg'' \<mapsto> [1]],
        logs := [LogException ''Failed to save uploaded image''
                   (OtherException ''No space left on device'')]\<rparr>)"
  using handle_image_upload_write_fails
          [where r = "upload_request ''A.JPG'' ''t1''" and name = "''A.JPG''" and tid = "''t1''"
             and f = "\<lparr>truthy = True, filename = Some ''A.JPG'', body = [1, 2]\<rparr>"
             and env = "(sample_env (Responds ok_response))\<lparr>write_wb := disk_full\<rparr>"
             and w = empty_world and e = "OtherException ''No space left on device''"
             and written = "[1]"]
        upper_jpg_facts upper_jpg_path
  by (simp add: upload_request_def sample_env_def sample_config_def empty_world_def str_int_5
      upload_save_filename_def disk_full_def)

lemma lower_jpg_facts:
  "endswith_any (lower ''a.jpg'') allowed_suffixes"
  "splitext_ext (lower ''a.jpg'') = ''.jpg''"
  by code_simp+

lemma dot_jpg_facts:
  "endswith_any (lower ''.JPG'') allowed_suffixes"
  "splitext_ext (lower ''.JPG'') = []"
  "splitext_ext ''.JPG'' = []"
  by code_simp+

lemma dot_jpg_path:
  "os_path_join ''/snap'' (''t1'' @ ''_'' @ str_int 5 @ []) = ''/snap/t1_5''"
  by code_simp

section \<open>Properties of the Predictor\<close>

text \<open>
  C1 (as stated): a POST that completes with a 2xx status returns the parsed JSON body.
  The code compares the status with 200 only, so a 201 answer with a JSON body is raised as
  an error carrying status 201.
\<close>

theorem request_prediction_2xx_counterexample:
  "fst (request_prediction (sample_env (Responds created_response))
          (JStr ''/snap/a.jpg'') (JStr ''t1'') empty_world)
     = Inl (ServerError ''AI service returned error: created'' 201)"
  by (simp add: request_prediction_def request_prediction_try_def Let_def sample_env_def
      created_response_def)

text \<open>
  C1 (amended): when the POST completes with status 200 and the body parses as JSON,
  \<open>_request_prediction\<close> returns the parsed body unchanged; when it completes with any status
  other than 200 (other 2xx codes included) and the body text can be read, it fails with an
  error whose status is the remote status and whose message contains the remote body.
\<close>

theorem request_prediction_response:
  "remote env (build_request env p tid) = Responds resp \<Longrightarrow>
   (status resp = 200 \<and> json_result resp = Inr result \<longrightarrow>
      fst (request_prediction env (JStr p) tid w) = Inr result) \<and>
   (status resp \<noteq> 200 \<and> text_result resp = Inr error_text \<longrightarrow>
      (\<exists>msg. fst (request_prediction env (JStr p) tid w) = Inl (ServerError msg (status resp)) \<and>
             contains_str msg error_text))"
proof (intro conjI impI)
  assume r: "remote env (build_request env p tid) = Responds resp"
  { assume "status resp = 200 \<and> json_result resp = Inr result"
    then show "fst (request_prediction env (JStr p) tid w) = Inr result"
      using r by (simp add: request_prediction_200) }
  { assume "status resp \<noteq> 200 \<and> text_result resp = Inr error_text"
    then have "fst (request_prediction env (JStr p) tid w) =
        Inl (ServerError (''AI service returned error: '' @ error_text) (status resp))"
      using r by (simp add: request_prediction_not_200)
    moreover have "contains_str (''AI service returned error: '' @ error_text) error_text"
      by (rule contains_str_prefixed)
    ultimately show "\<exists>msg. fst (request_prediction env (JStr p) tid w) =
        Inl (ServerError msg (status resp)) \<and> contains_str msg error_text"
      by blast }
qed

theorem request_prediction_response_witness:
  "fst (request_prediction (sample_env (Responds ok_response))
          (JStr ''/snap/a.jpg'') (JStr ''t1'') empty_world) = Inr (JObj [(''label'', JStr ''ok'')]) \<and>
   (\<exists>msg. fst (request_prediction (sample_env (Responds bad_image_response))
                 (JStr ''/snap/a.jpg'') (JStr ''t1'') empty_world) = Inl (ServerError msg 422) \<and>
          contains_str msg ''bad image'')"
  using request_prediction_response
          [of "sample_env (Responds ok_response)" "''/snap/a.jpg''" "JStr ''t1''" ok_response
              "JObj [(''label'', JStr ''ok'')]" empty_world "''label ok''"]
        request_prediction_response
          [of "sample_env (Responds bad_image_response)" "''/snap/a.jpg''" "JStr ''t1''"
              bad_image_response "JNull" empty_world "''bad image''"]
  by (simp add: sample_env_def ok_response_def bad_image_response_def)

text \<open>
  C3: when the POST raises a transport-level timeout, \<open>_request_prediction\<close> fails with
  status 504 and a message containing "request timeout"; when the connection cannot be
  established, it fails with status 503 and a message that includes the text of the
  underlying error.
\<close>

theorem request_prediction_transport_failure:
  "(remote env (build_request env p tid) = Raises (TimeoutError m) \<longrightarrow>
      (\<exists>msg. fst (request_prediction env (JStr p) tid w) = Inl (ServerError msg 504) \<and>
             contains_str msg ''request timeout'')) \<and>
   (remote env (build_request env p tid) = Raises (ClientError m) \<longrightarrow>
      (\<exists>msg. fst (request_prediction env (JStr p) tid w) = Inl (ServerError msg 503) \<and>
             contains_str msg m))"
proof (intro conjI impI)
  assume "remote env (build_request env p tid) = Raises (TimeoutError m)"
  then have "fst (request_prediction env (JStr p) tid w) =
      Inl (ServerError ''AI service request timeout'' 504)"
    by (simp add: request_prediction_raises)
  moreover have "contains_str ''AI service request timeout'' ''request timeout''"
    by simp
  ultimately show "\<exists>msg. fst (request_prediction env (JStr p) tid w) = Inl (ServerError msg 504) \<and>
      contains_str msg ''request timeout''"
    by blast
next
  assume "remote env (build_request env p tid) = Raises (ClientError m)"
  then have "fst (request_prediction env (JStr p) tid w) =
      Inl (ServerError (''Failed to connect to AI service: '' @ m) 503)"
    by (simp add: request_prediction_raises)
  moreover have "contains_str (''Failed to connect to AI service: '' @ m) m"
    by (rule contains_str_prefixed)
  ultimately show "\<exists>msg. fst (request_prediction env (JStr p) tid w) = Inl (ServerError msg 503) \<and>
      contains_str msg m"
    by blast
qed

theorem request_prediction_transport_failure_witness:
  "(\<exists>msg. fst (request_prediction timeout_env (JStr ''/snap/a.jpg'') (JStr ''t1'') empty_world)
            = Inl (ServerError msg 504) \<and>
          contains_str msg ''request timeout'') \<and>
   (\<exists>msg. fst (request_prediction refused_env (JStr ''/snap/a.jpg'') (JStr ''t1'') empty_world)
            = Inl (ServerError msg 503) \<and>
          contains_str msg ''refused'')"
  using request_prediction_transport_failure
          [of timeout_env "''/snap/a.jpg''" "JStr ''t1''" "[]" empty_world]
        request_prediction_transport_failure
          [of refused_env "''/snap/a.jpg''" "JStr ''t1''" "''refused''" empty_world]
  by (simp add: timeout_env_def refused_env_def sample_env_def)

section \<open>Properties of the Predict Handler\<close>

text \<open>
  C5: a body that lacks one of the keys \<open>image_url\<close>, \<open>task_id\<close>, \<open>callback_url\<close> is
  rejected with a 400-class error naming the first missing field, the fields being checked in
  that order; nothing else happens. In particular a body with only \<open>task_id\<close> is rejected
  naming \<open>image_url\<close>.
\<close>

theorem handle_predict_missing_field:
  "(get_json web_request ''image_url'' = None \<longrightarrow>
      handle_predict env web_request w =
        (Inl (ServerError ''Missing required field: image_url'' 400), w)) \<and>
   (get_json web_request ''image_url'' \<noteq> None \<and> get_json web_request ''task_id'' = None \<longrightarrow>
      handle_predict env web_request w =
        (Inl (ServerError ''Missing required field: task_id'' 400), w)) \<and>
   (get_json web_request ''image_url'' \<noteq> None \<and> get_json web_request ''task_id'' \<noteq> None \<and>
    get_json web_request ''callback_url'' = None \<longrightarrow>
      handle_predict env web_request w =
        (Inl (ServerError ''Missing required field: callback_url'' 400), w))"
  by (simp add: handle_predict_def required_fields_def Let_def)

theorem handle_predict_missing_field_witness:
  "handle_predict timeout_env only_task_id empty_world =
     (Inl (ServerError ''Missing required field: image_url'' 400), empty_world)"
  using handle_predict_missing_field [of only_task_id timeout_env empty_world]
  by (simp add: only_task_id_def)

text \<open>
  C2: when the body contains \<open>image_url\<close>, \<open>task_id\<close> and \<open>callback_url\<close> and the Predictor
  raises an exception (its own 503, 504 and remote-status errors included), \<open>_handle_predict\<close>
  logs it and raises a 500-class error whose message is the message of the original exception.
\<close>

theorem handle_predict_reraises:
  "get_json r ''image_url'' = Some u \<Longrightarrow> get_json r ''task_id'' = Some t \<Longrightarrow>
   get_json r ''callback_url'' = Some c \<Longrightarrow>
   request_prediction env u t w = (Inl e, w') \<Longrightarrow>
   handle_predict env r w =
     (Inl (ServerError (str_exn e) 500),
      w'\<lparr>logs := logs w' @ [LogException ''Error processing prediction request'' e]\<rparr>)"
  by (simp add: handle_predict_valid)

theorem handle_predict_reraises_witness:
  "handle_predict timeout_env (full_request ''http://caller/cb'') empty_world =
     (Inl (ServerError ''AI service request timeout'' 500),
      empty_world\<lparr>posts := [build_request timeout_env ''/snap/a.jpg'' (JStr ''t1'')],
        logs := [LogError ''AI Detection: Prediction request timeout for task t1'',
                 LogException ''Error processing prediction request''
                   (ServerError ''AI service request timeout'' 504)]\<rparr>)"
  using handle_predict_reraises
          [of "full_request ''http://caller/cb''" "JStr ''/snap/a.jpg''" "JStr ''t1''"
              "JStr ''http://caller/cb''" timeout_env empty_world, OF _ _ _ timeout_env_prediction]
  by (simp add: full_request_def)

text \<open>
  C9: the caller's \<open>callback_url\<close> never reaches the outbound request. Two requests whose
  bodies contain all three keys and differ only in the value of \<open>callback_url\<close> have the same
  outcome, in particular the same outbound POSTs; and every POST the handler adds carries the
  callback URL that the Predictor derives from the host address.
\<close>

theorem callback_url_ignored:
  assumes same: "\<forall>k. k \<noteq> ''callback_url'' \<longrightarrow> get_json r1 k = get_json r2 k"
    and c1: "get_json r1 ''callback_url'' = Some c1"
    and c2: "get_json r2 ''callback_url'' = Some c2"
    and u: "get_json r1 ''image_url'' = Some u"
    and t: "get_json r1 ''task_id'' = Some t"
  shows "handle_predict env r1 w = handle_predict env r2 w \<and>
         posts (snd (handle_predict env r1 w)) = posts (snd (handle_predict env r2 w)) \<and>
         (\<forall>q \<in> set (posts (snd (handle_predict env r1 w))).
            q \<in> set (posts w) \<or> callback_url (json_arg q) = build_callback_url env)"
proof (intro conjI)
  have u2: "get_json r2 ''image_url'' = Some u" using same u by simp
  have t2: "get_json r2 ''task_id'' = Some t" using same t by simp
  show eq: "handle_predict env r1 w = handle_predict env r2 w"
    by (simp add: handle_predict_valid [OF u t c1] handle_predict_valid [OF u2 t2 c2])
  show "posts (snd (handle_predict env r1 w)) = posts (snd (handle_predict env r2 w))"
    by (simp add: eq)
  have p: "set (posts (snd (request_prediction env u t w))) \<subseteq>
        set (posts w) \<union> {q. callback_url (json_arg q) = build_callback_url env}"
    by (cases u) (auto simp add: request_prediction_posts build_request_def)
  show "\<forall>q \<in> set (posts (snd (handle_predict env r1 w))).
            q \<in> set (posts w) \<or> callback_url (json_arg q) = build_callback_url env"
    using p by (auto simp add: handle_predict_valid [OF u t c1] split: prod.splits sum.splits)
qed

theorem callback_url_ignored_witness:
  "handle_predict (sample_env (Responds ok_response)) (full_request ''http://caller/cb'')
       empty_world =
     handle_predict (sample_env (Responds ok_response)) (full_request ''http://evil/x'')
       empty_world \<and>
   posts (snd (handle_predict (sample_env (Responds ok_response))
                 (full_request ''http://caller/cb'') empty_world)) =
     [\<lparr>url = ''http://ai.local/predict'',
       json_arg = \<lparr>image_url = ''http://10.0.0.2/server/files/ai_snapshots/a.jpg'',
                   task_id = JStr ''t1'',
                   callback_url = ''http://10.0.0.2/api/v1/ai/callback''\<rparr>,
       timeout = 30\<rparr>]"
proof -
  have b: "basename ''/snap/a.jpg'' = ''a.jpg''"
    by code_simp
  have "handle_predict (sample_env (Responds ok_response)) (full_request ''http://caller/cb'')
          empty_world =
        handle_predict (sample_env (Responds ok_response)) (full_request ''http://evil/x'')
          empty_world"
    using callback_url_ignored
            [of "full_request ''http://caller/cb''" "full_request ''http://evil/x''"
                "JStr ''http://caller/cb''" "JStr ''http://evil/x''" "JStr ''/snap/a.jpg''"
                "JStr ''t1''" "sample_env (Responds ok_response)" empty_world]
    by (simp add: full_request_def)
  moreover have "posts (snd (handle_predict (sample_env (Responds ok_response))
                 (full_request ''http://caller/cb'') empty_world)) =
     [\<lparr>url = ''http://ai.local/predict'',
       json_arg = \<lparr>image_url = ''http://10.0.0.2/server/files/ai_snapshots/a.jpg'',
                   task_id = JStr ''t1'',
                   callback_url = ''http://10.0.0.2/api/v1/ai/callback''\<rparr>,
       timeout = 30\<rparr>]"
    by (simp add: handle_predict_posts [of _ "JStr ''/snap/a.jpg''" "JStr ''t1''"
          "JStr ''http://caller/cb''"] full_request_def build_request_def build_image_url_def
          build_callback_url_def b sample_env_def sample_config_def empty_world_def)
  ultimately show ?thesis by simp
qed

text \<open>
  C10: \<open>_handle_predict\<close> checks only that the three keys are present. A body that binds all
  three to empty strings passes validation and an outbound prediction request is still issued
  (for the image name \<open>""\<close> and the task id \<open>""\<close>); \<open>_handle_image_upload\<close>, in contrast,
  rejects a request whose \<open>task_id\<close> is present but empty with a 400-class error.
\<close>

theorem handle_predict_accepts_empty_values:
  "get_json r ''image_url'' = Some (JStr []) \<Longrightarrow> get_json r ''task_id'' = Some (JStr []) \<Longrightarrow>
   get_json r ''callback_url'' = Some (JStr []) \<Longrightarrow>
   check_required required_fields (get_json r) = None \<and>
   posts (snd (handle_predict env r w)) = posts w @ [build_request env [] (JStr [])] \<and>
   (args r' ''task_id'' = Some [] \<longrightarrow>
      (\<exists>msg. handle_image_upload env r' w = (Inl (ServerError msg 400), w)))"
  by (auto simp add: check_required_all_present handle_predict_posts
      handle_image_upload_def get_str_def Let_def split: option.splits)

theorem handle_predict_accepts_empty_values_witness:
  "posts (snd (handle_predict (sample_env (Responds ok_response)) empty_values_request
                 empty_world)) =
     [\<lparr>url = ''http://ai.local/predict'',
       json_arg = \<lparr>image_url = ''http://10.0.0.2/server/files/ai_snapshots/'',
                   task_id = JStr [],
                   callback_url = ''http://10.0.0.2/api/v1/ai/callback''\<rparr>,
       timeout = 30\<rparr>] \<and>
   (\<exists>msg. handle_image_upload (sample_env (Responds ok_response))
            (upload_request ''a.jpg'' []) empty_world =
          (Inl (ServerError msg 400), empty_world))"
  using handle_predict_accepts_empty_values
          [where r = empty_values_request and r' = "upload_request ''a.jpg'' []"
             and env = "sample_env (Responds ok_response)" and w = empty_world]
  by (auto simp add: empty_values_request_def upload_request_def build_request_def
      build_image_url_def build_callback_url_def basename_empty sample_env_def sample_config_def
      empty_world_def)

section \<open>Properties of the Snapshot Handler\<close>

text \<open>
  C7: when the capture collaborator returns no image, \<open>_handle_snapshot_request\<close> logs an
  error and returns normally: no file is written, no outbound prediction request is made and
  no exception is raised.
\<close>

theorem snapshot_none_returns:
  "webcam env = Inr (Inr None) \<Longrightarrow>
   handle_snapshot_request env w =
     (Inr (), w\<lparr>logs := logs w @ [LogError ''Failed to take snapshot'']\<rparr>) \<and>
   disk (snd (handle_snapshot_request env w)) = disk w \<and>
   posts (snd (handle_snapshot_request env w)) = posts w"
  by (simp add: handle_snapshot_request_def handle_snapshot_try_def)

theorem snapshot_none_returns_witness:
  "handle_snapshot_request timeout_env empty_world =
     (Inr (), empty_world\<lparr>logs := [LogError ''Failed to take snapshot'']\<rparr>)"
  using snapshot_none_returns [of timeout_env empty_world]
  by (simp add: timeout_env_def sample_env_def empty_world_def)




section \<open>Properties of the Upload Handler\<close>

text \<open>
  C4 (as stated): an upload with an empty file, or with a filename whose extension is outside
  \<open>.jpg\<close>, \<open>.jpeg\<close>, \<open>.png\<close>, is rejected with a 400-class error and nothing is written.
  The code tests neither the size of the body nor the extension of the name: a zero-byte
  \<open>a.jpg\<close> is answered with code 200 and stored, and so is a file named \<open>.JPG\<close>, whose
  extension is empty.
\<close>

theorem upload_validation_counterexample:
  "body \<lparr>truthy = True, filename = Some ''a.jpg'', body = []\<rparr> = [] \<and>
   handle_image_upload (sample_env (Responds ok_response)) zero_byte_upload empty_world =
     (Inr \<lparr>code = 200, message = ''success'', data = JNull\<rparr>,
      empty_world\<lparr>disk := [''/snap/t1_5.jpg'' \<mapsto> []],
        logs := [LogInfo ''AI Detection: Image saved for task t1 at /snap/t1_5.jpg'']\<rparr>) \<and>
   splitext_ext ''.JPG'' = [] \<and>
   handle_image_upload (sample_env (Responds ok_response)) (upload_request ''.JPG'' ''t1'')
       empty_world =
     (Inr \<lparr>code = 200, message = ''success'', data = JNull\<rparr>,
      empty_world\<lparr>disk := [''/snap/t1_5'' \<mapsto> [1, 2]],
        logs := [LogInfo ''AI Detection: Image saved for task t1 at /snap/t1_5'']\<rparr>)"
proof (intro conjI)
  show "body \<lparr>truthy = True, filename = Some ''a.jpg'', body = []\<rparr> = []"
    by simp
  show "handle_image_upload (sample_env (Responds ok_response)) zero_byte_upload empty_world =
     (Inr \<lparr>code = 200, message = ''success'', data = JNull\<rparr>,
      empty_world\<lparr>disk := [''/snap/t1_5.jpg'' \<mapsto> []],
        logs := [LogInfo ''AI Detection: Image saved for task t1 at /snap/t1_5.jpg'']\<rparr>)"
    using handle_image_upload_valid
          [where r = zero_byte_upload and name = "''a.jpg''" and tid = "''t1''"
             and f = "\<lparr>truthy = True, filename = Some ''a.jpg'', body = []\<rparr>"
             and env = "sample_env (Responds ok_response)" and w = empty_world]
        lower_jpg_facts upper_jpg_path
    by (simp add: zero_byte_upload_def sample_env_def sample_config_def empty_world_def str_int_5
        upload_save_filename_def)
  show "splitext_ext ''.JPG'' = []"
    by (rule dot_jpg_facts(3))
  show "handle_image_upload (sample_env (Responds ok_response)) (upload_request ''.JPG'' ''t1'')
       empty_world =
     (Inr \<lparr>code = 200, message = ''success'', data = JNull\<rparr>,
      empty_world\<lparr>disk := [''/snap/t1_5'' \<mapsto> [1, 2]],
        logs := [LogInfo ''AI Detection: Image saved for task t1 at /snap/t1_5'']\<rparr>)"
    using handle_image_upload_valid
          [where r = "upload_request ''.JPG'' ''t1''" and name = "''.JPG''" and tid = "''t1''"
             and f = "\<lparr>truthy = True, filename = Some ''.JPG'', body = [1, 2]\<rparr>"
             and env = "sample_env (Responds ok_response)" and w = empty_world]
        dot_jpg_facts dot_jpg_path
    by (simp add: upload_request_def sample_env_def sample_config_def empty_world_def str_int_5
        upload_save_filename_def)
qed

text \<open>
  C4 (amended): an upload that has no file part, or whose file object is falsy or has no
  filename or an empty one, or that has no \<open>task_id\<close> or an empty one, or whose lower-cased
  filename ends in none of \<open>.jpg\<close>, \<open>.jpeg\<close>, \<open>.png\<close>, is rejected with a 400-class error
  decided by the first failing check in that order; the state is left as it was, so no file is
  written. For a missing \<open>task_id\<close> the error is the one raised by \<open>WebRequest.get_str\<close>,
  passed on unchanged.
\<close>

theorem handle_image_upload_rejects:
  "(files r ''file'' = None \<longrightarrow>
      handle_image_upload env r w = (Inl (ServerError ''No file uploaded'' 400), w)) \<and>
   (files r ''file'' = Some f \<and> (\<not> truthy f \<or> filename f = None \<or> filename f = Some []) \<longrightarrow>
      handle_image_upload env r w = (Inl (ServerError ''Empty file'' 400), w)) \<and>
   (files r ''file'' = Some f \<and> truthy f \<and> filename f = Some name \<and> name \<noteq> [] \<and>
    get_str r ''task_id'' = Inl e \<longrightarrow>
      handle_image_upload env r w = (Inl e, w)) \<and>
   (files r ''file'' = Some f \<and> truthy f \<and> filename f = Some name \<and> name \<noteq> [] \<and>
    args r ''task_id'' = Some [] \<longrightarrow>
      handle_image_upload env r w = (Inl (ServerError ''task_id is required'' 400), w)) \<and>
   (files r ''file'' = Some f \<and> truthy f \<and> filename f = Some name \<and> name \<noteq> [] \<and>
    args r ''task_id'' = Some tid \<and> tid \<noteq> [] \<and>
    \<not> endswith_any (lower name) allowed_suffixes \<longrightarrow>
      handle_image_upload env r w =
        (Inl (ServerError ''Invalid file type. Only jpg/jpeg/png allowed'' 400), w))"
  by (auto simp add: handle_image_upload_def get_str_def Let_def)

theorem handle_image_upload_rejects_witness:
  "handle_image_upload timeout_env no_file_request empty_world =
     (Inl (ServerError ''No file uploaded'' 400), empty_world) \<and>
   handle_image_upload timeout_env falsy_file_upload empty_world =
     (Inl (ServerError ''Empty file'' 400), empty_world) \<and>
   handle_image_upload timeout_env (upload_request [] ''t1'') empty_world =
     (Inl (ServerError ''Empty file'' 400), empty_world) \<and>
   handle_image_upload timeout_env no_task_id_upload empty_world =
     (Inl (ServerError ''No data for argument: task_id'' 400), empty_world) \<and>
   handle_image_upload timeout_env (upload_request ''a.jpg'' []) empty_world =
     (Inl (ServerError ''task_id is required'' 400), empty_world) \<and>
   handle_image_upload timeout_env (upload_request ''Photo.GIF'' ''t1'') empty_world =
     (Inl (ServerError ''Invalid file type. Only jpg/jpeg/png allowed'' 400), empty_world)"
  using handle_image_upload_rejects
          [where r = no_file_request and env = timeout_env and w = empty_world]
        handle_image_upload_rejects
          [where r = falsy_file_upload and env = timeout_env and w = empty_world
             and f = "\<lparr>truthy = False, filename = Some ''a.jpg'', body = [1, 2]\<rparr>"]
        handle_image_upload_rejects
          [where r = "upload_request [] ''t1''" and env = timeout_env and w = empty_world
             and f = "\<lparr>truthy = True, filename = Some [], body = [1, 2]\<rparr>"]
        handle_image_upload_rejects
          [where r = no_task_id_upload and env = timeout_env and w = empty_world
             and f = "\<lparr>truthy = True, filename = Some ''a.jpg'', body = [1, 2]\<rparr>"
             and name = "''a.jpg''"
             and e = "ServerError ''No data for argument: task_id'' 400"]
        handle_image_upload_rejects
          [where r = "upload_request ''a.jpg'' []" and env = timeout_env and w = empty_world
             and f = "\<lparr>truthy = True, filename = Some ''a.jpg'', body = [1, 2]\<rparr>"
             and name = "''a.jpg''"]
        handle_image_upload_rejects
          [where r = "upload_request ''Photo.GIF'' ''t1''" and env = timeout_env
             and w = empty_world
             and f = "\<lparr>truthy = True, filename = Some ''Photo.GIF'', body = [1, 2]\<rparr>"
             and name = "''Photo.GIF''" and tid = "''t1''"]
        gif_not_allowed
  by (simp add: upload_request_def no_file_request_def falsy_file_upload_def
      no_task_id_upload_def get_str_def)

text \<open>
  C6 (as stated): the stored file carries the extension of the uploaded filename. The code
  takes the extension from the lower-cased filename: for \<open>A.JPG\<close>, whose extension is
  \<open>.JPG\<close>, no file \<open>t1_5.JPG\<close> exists afterwards; the file written is \<open>t1_5.jpg\<close>.
\<close>

theorem upload_original_extension_counterexample:
  "splitext_ext ''A.JPG'' = ''.JPG'' \<and>
   disk (snd (handle_image_upload (sample_env (Responds ok_response))
                (upload_request ''A.JPG'' ''t1'') empty_world)) ''/snap/t1_5.JPG'' = None \<and>
   disk (snd (handle_image_upload (sample_env (Responds ok_response))
                (upload_request ''A.JPG'' ''t1'') empty_world)) ''/snap/t1_5.jpg'' = Some [1, 2]"
proof -
  have "handle_image_upload (sample_env (Responds ok_response)) (upload_request ''A.JPG'' ''t1'')
     empty_world =
     (Inr \<lparr>code = 200, message = ''success'', data = JNull\<rparr>,
      empty_world\<lparr>disk := [''/snap/t1_5.jpg'' \<mapsto> [1, 2]],
        logs := [LogInfo ''AI Detection: Image saved for task t1 at /snap/t1_5.jpg'']\<rparr>)"
    using handle_image_upload_valid
          [where r = "upload_request ''A.JPG'' ''t1''" and name = "''A.JPG''" and tid = "''t1''"
             and f = "\<lparr>truthy = True, filename = Some ''A.JPG'', body = [1, 2]\<rparr>"
             and env = "sample_env (Responds ok_response)" and w = empty_world]
        upper_jpg_facts upper_jpg_path
    by (simp add: upload_request_def sample_env_def sample_config_def empty_world_def str_int_5
        upload_save_filename_def)
  then show ?thesis
    using upper_jpg_facts(3) by simp
qed

text \<open>
  C6 (amended): for an upload that passes the four validation checks, whose \<open>task_id\<close>
  contains no \<open>/\<close> and whose persistence write succeeds (the file opens and the body is
  written and closed without error), \<open>_handle_image_upload\<close> writes exactly one file, holding
  the uploaded body, directly under \<open>snapshot_path\<close>, named \<open><task_id>_<unix seconds><ext>\<close>;
  it logs one line and returns \<open>{code: 200, message: "success", data: null}\<close>. Here \<open>ext\<close> is
  the extension of the lower-cased filename: the suffix \<open>.jpg\<close>, \<open>.jpeg\<close> or \<open>.png\<close> that
  the lower-cased filename ends in, or nothing when the last path component of the filename
  has only dots (or nothing at all) in front of that suffix.
\<close>

theorem handle_image_upload_persists:
  assumes "files r ''file'' = Some f" "truthy f" "filename f = Some name" "name \<noteq> []"
    and "args r ''task_id'' = Some tid" "tid \<noteq> []" "CHR ''/'' \<notin> set tid"
    and "endswith_any (lower name) allowed_suffixes"
    and N: "N = tid @ ''_'' @ str_int (time_now env) @ splitext_ext (lower name)"
    and P: "P = os_path_join (snapshot_path (ai_config env)) N"
    and "open_wb env P = None" "write_wb env P (body f) = None"
  shows "handle_image_upload env r w =
           (Inr \<lparr>code = 200, message = ''success'', data = JNull\<rparr>,
            w\<lparr>disk := (disk w)(P \<mapsto> body f),
              logs := logs w @
                [LogInfo (''AI Detection: Image saved for task '' @ tid @ '' at '' @ P)]\<rparr>) \<and>
         (P = snapshot_path (ai_config env) @ N \<or>
          P = snapshot_path (ai_config env) @ ''/'' @ N) \<and>
         CHR ''/'' \<notin> set N \<and>
         (\<exists>pre suf. lower name = pre @ suf \<and> suf \<in> set allowed_suffixes \<and>
            splitext_ext (lower name) =
              (if \<exists>c \<in> set (basename pre). c \<noteq> CHR ''.'' then suf else []))"
proof (intro conjI)
  have N': "N = upload_save_filename env tid (lower name)"
    by (simp add: N upload_save_filename_def)
  show "handle_image_upload env r w =
           (Inr \<lparr>code = 200, message = ''success'', data = JNull\<rparr>,
            w\<lparr>disk := (disk w)(P \<mapsto> body f),
              logs := logs w @
                [LogInfo (''AI Detection: Image saved for task '' @ tid @ '' at '' @ P)]\<rparr>)"
    using assms(1-6,8,11,12) unfolding P N' by (rule handle_image_upload_valid)
  obtain c cs where tid: "tid = c # cs" and c: "c \<noteq> CHR ''/''"
    using \<open>tid \<noteq> []\<close> \<open>CHR ''/'' \<notin> set tid\<close> by (cases tid) auto
  have "N \<noteq> []"
    by (simp add: N tid)
  moreover have "hd N \<noteq> CHR ''/''"
    using c by (simp add: N tid)
  ultimately show "P = snapshot_path (ai_config env) @ N \<or>
             P = snapshot_path (ai_config env) @ ''/'' @ N"
    unfolding P by (rule os_path_join_relative)
  show "CHR ''/'' \<notin> set N"
    unfolding N' using \<open>CHR ''/'' \<notin> set tid\<close> by (rule upload_save_filename_no_sep)
  show "\<exists>pre suf. lower name = pre @ suf \<and> suf \<in> set allowed_suffixes \<and>
            splitext_ext (lower name) =
              (if \<exists>c \<in> set (basename pre). c \<noteq> CHR ''.'' then suf else [])"
    using \<open>endswith_any (lower name) allowed_suffixes\<close> by (rule splitext_ext_of_allowed)
qed

theorem handle_image_upload_persists_witness:
  "handle_image_upload (sample_env (Responds ok_response)) (upload_request ''A.JPG'' ''t1'')
     empty_world =
     (Inr \<lparr>code = 200, message = ''success'', data = JNull\<rparr>,
      empty_world\<lparr>disk := [''/snap/t1_5.jpg'' \<mapsto> [1, 2]],
        logs := [LogInfo ''AI Detection: Image saved for task t1 at /snap/t1_5.jpg'']\<rparr>)"
  using handle_image_upload_persists
          [where r = "upload_request ''A.JPG'' ''t1''" and name = "''A.JPG''" and tid = "''t1''"
             and f = "\<lparr>truthy = True, filename = Some ''A.JPG'', body = [1, 2]\<rparr>"
             and env = "sample_env (Responds ok_response)" and w = empty_world
             and N = "''t1_5.jpg''" and P = "''/snap/t1_5.jpg''"]
        upper_jpg_facts upper_jpg_path
  by (simp add: upload_request_def sample_env_def sample_config_def empty_world_def str_int_5)

end
